theory Spec2Isabelle
  imports Complex_Main
begin

section \<open>The camera system of \<^verbatim>\<open>src/systems/camera.js\<close>\<close>

text \<open>
  The system keeps one field of its own, \<^verbatim>\<open>activeCameraEl\<close>, and works on the
  scene element through a handful of calls: element creation, attribute reads and
  writes, child insertion and removal, descendant queries by attribute selector,
  event emission and listener registration, and the slot \<^verbatim>\<open>sceneEl.camera\<close>.
  Element objects are referred to by identity (a number); their attributes live in a
  store, so that a write through \<^verbatim>\<open>activeCameraEl\<close> or through an entry of a
  query result reaches the element also after it has left the scene.
\<close>

subsection \<open>Data\<close>

text \<open>
  A JavaScript number is an IEEE-754 binary64 value: NaN, one of the two infinities, or
  a finite value \<^verbatim>\<open>(-1)^s * m * 2^e\<close>, written \<open>Finite s m e\<close> (the sign \<open>s\<close> is \<open>True\<close>
  for a negative value). Finite values are kept as the format stores them: a normal
  number has \<^verbatim>\<open>2^52 <= m < 2^53\<close> and \<^verbatim>\<open>-1074 <= e <= 971\<close>, a subnormal number and the
  two zeros have \<^verbatim>\<open>m < 2^52\<close> and \<^verbatim>\<open>e = -1074\<close>.
\<close>

datatype double = NaN | Infinity bool | Finite bool nat int

text \<open>The number of binary digits of a natural number.\<close>

fun bitlen :: "nat \<Rightarrow> nat" where
  "bitlen n = (if n = 0 then 0 else bitlen (n div 2) + 1)"

text \<open>
  The double nearest to \<^verbatim>\<open>(-1)^s * n * 2^e\<close> for \<^verbatim>\<open>n > 0\<close> and \<^verbatim>\<open>e >= -1074\<close>: up to 53
  digits are kept as they are; of more digits the first 53 are kept and the rest is
  rounded to nearest, a tie to the even neighbour; a result of \<^verbatim>\<open>2^1024\<close> or more is
  an infinity.
\<close>

definition round_finite :: "bool \<Rightarrow> nat \<Rightarrow> int \<Rightarrow> double" where
  "round_finite s n e =
     (let l = bitlen n in
      if l \<le> 53 then
        (let k = min (53 - l) (nat (e + 1074)) in Finite s (n * 2 ^ k) (e - int k))
      else
        (let k = l - 53;
             q = n div 2 ^ k;
             r = n mod 2 ^ k;
             half = 2 ^ (k - 1);
             q' = (if half < r \<or> (r = half \<and> odd q) then q + 1 else q);
             m = (if q' = 2 ^ 53 then 2 ^ 52 else q');
             e' = (if q' = 2 ^ 53 then e + int k + 1 else e + int k)
         in if 971 < e' then Infinity s else Finite s m e'))"

definition signed :: "bool \<Rightarrow> nat \<Rightarrow> int" where
  "signed s m = (if s then - int m else int m)"

text \<open>
  The operators \<^verbatim>\<open>+\<close> and \<^verbatim>\<open>-\<close> on numbers (IEEE-754 addition and subtraction,
  rounding to nearest): the exact sum of two finite values is formed over the smaller
  exponent and rounded once.
\<close>

fun dadd :: "double \<Rightarrow> double \<Rightarrow> double" where
  "dadd NaN b = NaN"
| "dadd a NaN = NaN"
| "dadd (Infinity s) (Infinity t) = (if s = t then Infinity s else NaN)"
| "dadd (Infinity s) (Finite t m e) = Infinity s"
| "dadd (Finite s m e) (Infinity t) = Infinity t"
| "dadd (Finite s1 m1 e1) (Finite s2 m2 e2) =
     (if m1 = 0 \<and> m2 = 0 then Finite (s1 \<and> s2) 0 (- 1074)
      else if m1 = 0 then Finite s2 m2 e2
      else if m2 = 0 then Finite s1 m1 e1
      else
        (let e = min e1 e2;
             i = signed s1 (m1 * 2 ^ nat (e1 - e)) + signed s2 (m2 * 2 ^ nat (e2 - e))
         in if i = 0 then Finite False 0 (- 1074)
            else round_finite (i < 0) (nat \<bar>i\<bar>) e))"

fun dneg :: "double \<Rightarrow> double" where
  "dneg NaN = NaN"
| "dneg (Infinity s) = Infinity (\<not> s)"
| "dneg (Finite s m e) = Finite (\<not> s) m e"

definition dsub :: "double \<Rightarrow> double \<Rightarrow> double" where
  "dsub a b = dadd a (dneg b)"

text \<open>The real number a finite double stands for.\<close>

fun valof :: "double \<Rightarrow> real option" where
  "valof NaN = None"
| "valof (Infinity s) = None"
| "valof (Finite s m e) = Some ((if s then - 1 else 1) * real m * 2 powi e)"

text \<open>
  The doubles that the literals \<^verbatim>\<open>0\<close>, \<^verbatim>\<open>1.8\<close> and \<^verbatim>\<open>4\<close> of line 4 denote, and
  the doubles nearest to \<open>0.1\<close>, \<open>3.6\<close> and \<open>8\<close>.
\<close>

definition double_0 :: double where
  "double_0 = Finite False 0 (- 1074)"

definition double_1_8 :: double where
  "double_1_8 = Finite False 8106479329266893 (- 52)"

definition double_4 :: double where
  "double_4 = Finite False 4503599627370496 (- 50)"

definition double_0_1 :: double where
  "double_0_1 = Finite False 7205759403792794 (- 56)"

definition double_3_6 :: double where
  "double_3_6 = Finite False 8106479329266893 (- 51)"

definition double_8 :: double where
  "double_8 = Finite False 4503599627370496 (- 49)"

text \<open>A position attribute, as \<^verbatim>\<open>{x: .., y: .., z: ..}\<close>.\<close>

record vec3 =
  x :: double
  y :: double
  z :: double

text \<open>
  The object \<^verbatim>\<open>getObject3D('camera')\<close> returns and \<^verbatim>\<open>sceneEl.camera\<close> holds:
  its identity and its \<^verbatim>\<open>el\<close> field (the owning entity, possibly undefined).
\<close>

datatype object3d = Object3D (uuid: nat) (el: "nat option")

text \<open>
  What the system reads and writes of an element object:
  its \<^verbatim>\<open>position\<close> attribute (\<open>None\<close>: getAttribute returns null),
  whether it carries the attribute \<^verbatim>\<open>data-aframe-default-camera\<close>,
  its \<^verbatim>\<open>camera\<close> attribute block given by the \<^verbatim>\<open>active\<close> sub-field
  (\<open>None\<close>: the element has no camera attribute, so \<^verbatim>\<open>[camera]\<close> does not select it),
  the two controls attributes, the result of \<^verbatim>\<open>getObject3D('camera')\<close>
  (\<open>None\<close>: undefined), and whether it plays (\<^verbatim>\<open>play()\<close> / \<^verbatim>\<open>pause()\<close>).
\<close>

record entity =
  position :: "vec3 option"
  default_camera_attr :: bool
  camera_active :: "bool option"
  wasd_controls :: bool
  look_controls :: bool
  object3D_camera :: "object3d option"
  isPlaying :: bool

text \<open>The scene graph below \<^verbatim>\<open>sceneEl\<close>: an element and its children, in document order.\<close>

datatype node = Node nat "node list"

text \<open>
  The two methods that \<^verbatim>\<open>bindMethods\<close> binds to the system; these bound functions are
  what \<^verbatim>\<open>checkForCamera\<close> registers as listeners.
\<close>

datatype bound_method = AddDefaultOffset | RemoveDefaultOffset

text \<open>
  What \<^verbatim>\<open>this\<close> denotes in a function body: the system, in its methods, or the global
  object, in a function called plainly (the file has no strict-mode directive).
\<close>

datatype this_object = SystemObject | GlobalObject

datatype event = CameraReady "nat option" | CameraSetActive nat

datatype task = CheckForCamera

datatype error = TypeError | NotFoundError

record world =
  tree :: "node list"
  elements :: "nat \<Rightarrow> entity"
  next_el :: nat
  camera :: "object3d option"
  listeners :: "(string \<times> bound_method) list"
  emitted :: "event list"
  timeouts :: "task list"
  activeCameraEl :: "nat option"

definition DEFAULT_CAMERA_POSITION :: vec3 where
  "DEFAULT_CAMERA_POSITION = \<lparr>x = double_0, y = double_1_8, z = double_4\<rparr>"

subsection \<open>The scene element's interface\<close>

text \<open>All descendants of a list of sibling subtrees, in document order.\<close>

fun descendants :: "node list \<Rightarrow> nat list" where
  "descendants [] = []"
| "descendants (Node e ks # ns) = e # descendants ks @ descendants ns"

text \<open>The children of element \<open>d\<close>, searched for in document order.\<close>

fun childNodes :: "nat \<Rightarrow> node list \<Rightarrow> node list option" where
  "childNodes d [] = None"
| "childNodes d (Node e ks # ns) =
     (if e = d then Some ks
      else case childNodes d ks of Some r \<Rightarrow> Some r | None \<Rightarrow> childNodes d ns)"

text \<open>The selectors \<^verbatim>\<open>'[camera]'\<close> and \<^verbatim>\<open>'[data-aframe-default-camera]'\<close>.\<close>

definition sel_camera :: "entity \<Rightarrow> bool" where
  "sel_camera r = (case camera_active r of None \<Rightarrow> False | Some _ \<Rightarrow> True)"

definition sel_default_camera :: "entity \<Rightarrow> bool" where
  "sel_default_camera r = default_camera_attr r"

text \<open>
  Modelled from the spec: the scene host's "query single/multiple descendants by attribute
  marker" (the DOM's querySelectorAll and querySelector, not part of this file): the
  matching descendants in document order, and the first of them or null.
\<close>

definition querySelectorAll :: "(entity \<Rightarrow> bool) \<Rightarrow> world \<Rightarrow> node list \<Rightarrow> nat list" where
  "querySelectorAll sel w ns = filter (\<lambda>e. sel (elements w e)) (descendants ns)"

definition querySelector :: "(entity \<Rightarrow> bool) \<Rightarrow> world \<Rightarrow> node list \<Rightarrow> nat option" where
  "querySelector sel w ns = (case querySelectorAll sel w ns of [] \<Rightarrow> None | e # _ \<Rightarrow> Some e)"

text \<open>
  Modelled from the spec: "get/set element attributes", \<^verbatim>\<open>play()\<close>/\<^verbatim>\<open>pause()\<close> and
  "create/append/remove child elements" of the scene host and its entities (not part of
  this file). A write changes the one element object it is applied to. The reactions of
  the camera component to a changed attribute are not part of this file either and are
  not modelled.
\<close>

definition update_el :: "nat \<Rightarrow> (entity \<Rightarrow> entity) \<Rightarrow> world \<Rightarrow> world" where
  "update_el e f w = w\<lparr>elements := (elements w)(e := f (elements w e))\<rparr>"

definition setAttribute_position :: "nat \<Rightarrow> vec3 \<Rightarrow> world \<Rightarrow> world" where
  "setAttribute_position e p = update_el e (\<lambda>r. r\<lparr>position := Some p\<rparr>)"

definition setAttribute_default_camera :: "nat \<Rightarrow> world \<Rightarrow> world" where
  "setAttribute_default_camera e = update_el e (\<lambda>r. r\<lparr>default_camera_attr := True\<rparr>)"

definition setAttribute_camera_active :: "nat \<Rightarrow> bool \<Rightarrow> world \<Rightarrow> world" where
  "setAttribute_camera_active e b = update_el e (\<lambda>r. r\<lparr>camera_active := Some b\<rparr>)"

definition setAttribute_wasd_controls :: "nat \<Rightarrow> world \<Rightarrow> world" where
  "setAttribute_wasd_controls e = update_el e (\<lambda>r. r\<lparr>wasd_controls := True\<rparr>)"

definition setAttribute_look_controls :: "nat \<Rightarrow> world \<Rightarrow> world" where
  "setAttribute_look_controls e = update_el e (\<lambda>r. r\<lparr>look_controls := True\<rparr>)"

definition play :: "nat \<Rightarrow> world \<Rightarrow> world" where
  "play e = update_el e (\<lambda>r. r\<lparr>isPlaying := True\<rparr>)"

definition pause :: "nat \<Rightarrow> world \<Rightarrow> world" where
  "pause e = update_el e (\<lambda>r. r\<lparr>isPlaying := False\<rparr>)"

definition blank_entity :: entity where
  "blank_entity = \<lparr>position = None, default_camera_attr = False, camera_active = None,
     wasd_controls = False, look_controls = False, object3D_camera = None,
     isPlaying = False\<rparr>"

text \<open>\<^verbatim>\<open>document.createElement('a-entity')\<close>: a new element object without attributes.\<close>

definition createElement :: "world \<Rightarrow> nat \<times> world" where
  "createElement w =
     (next_el w,
      w\<lparr>next_el := Suc (next_el w), elements := (elements w)(next_el w := blank_entity)\<rparr>)"

text \<open>\<^verbatim>\<open>sceneEl.appendChild(e)\<close> for a new element: the last child of the scene.\<close>

definition appendChild :: "nat \<Rightarrow> world \<Rightarrow> world" where
  "appendChild e w = w\<lparr>tree := tree w @ [Node e []]\<rparr>"

text \<open>
  \<^verbatim>\<open>sceneEl.removeChild(d)\<close>: removes the child \<open>d\<close> of the scene with its subtree; the
  DOM throws NotFoundError when \<open>d\<close> is not a child of the scene itself.
\<close>

fun remove_child :: "nat \<Rightarrow> node list \<Rightarrow> node list option" where
  "remove_child d [] = None"
| "remove_child d (Node e ks # ns) =
     (if e = d then Some ns else map_option ((#) (Node e ks)) (remove_child d ns))"

definition removeChild :: "nat \<Rightarrow> world \<Rightarrow> error + world" where
  "removeChild d w =
     (case remove_child d (tree w) of
        None \<Rightarrow> Inl NotFoundError
      | Some ns \<Rightarrow> Inr (w\<lparr>tree := ns\<rparr>))"

text \<open>
  Modelled from the spec: "emit a named event with a payload" and "register/unregister a
  handler for a named event" (the scene host's, not part of this file). Emitted events
  are logged. A listener is registered once per event name; unregistering takes the
  function object to remove, and does nothing when that value is undefined (\<open>None\<close>).
\<close>

definition emit :: "event \<Rightarrow> world \<Rightarrow> world" where
  "emit ev w = w\<lparr>emitted := emitted w @ [ev]\<rparr>"

definition addEventListener :: "string \<Rightarrow> bound_method \<Rightarrow> world \<Rightarrow> world" where
  "addEventListener name f w =
     (if (name, f) \<in> set (listeners w) then w
      else w\<lparr>listeners := listeners w @ [(name, f)]\<rparr>)"

definition removeEventListener :: "string \<Rightarrow> bound_method option \<Rightarrow> world \<Rightarrow> world" where
  "removeEventListener name f w =
     (case f of
        None \<Rightarrow> w
      | Some g \<Rightarrow> w\<lparr>listeners := removeAll (name, g) (listeners w)\<rparr>)"

text \<open>
  Reading the property \<^verbatim>\<open>this.addDefaultOffset\<close> or \<^verbatim>\<open>this.removeDefaultOffset\<close>:
  the system object holds the bound methods, the global object has no such property.
\<close>

fun this_method :: "this_object \<Rightarrow> bound_method \<Rightarrow> bound_method option" where
  "this_method SystemObject f = Some f"
| "this_method GlobalObject f = None"

text \<open>Indexing a query result as JavaScript does: undefined outside the range.\<close>

definition item :: "'a list \<Rightarrow> int \<Rightarrow> 'a option" where
  "item xs i = (if 0 \<le> i \<and> i < int (length xs) then Some (xs ! nat i) else None)"

subsection \<open>The system\<close>

text \<open>
  \<^verbatim>\<open>checkForCamera\<close>, the callback that \<^verbatim>\<open>setupDefaultCamera\<close> passes to
  \<^verbatim>\<open>setTimeout\<close> (lines 35 to 51).
\<close>

definition checkForCamera :: "world \<Rightarrow> world" where
  "checkForCamera w =
     (case camera w of
        Some currentCamera \<Rightarrow> emit (CameraReady (el currentCamera)) w
      | None \<Rightarrow>
          (let (defaultCameraEl, w1) = createElement w;
               w2 = setAttribute_position defaultCameraEl DEFAULT_CAMERA_POSITION w1;
               w3 = setAttribute_default_camera defaultCameraEl w2;
               w4 = setAttribute_camera_active defaultCameraEl True w3;
               w5 = setAttribute_wasd_controls defaultCameraEl w4;
               w6 = setAttribute_look_controls defaultCameraEl w5;
               w7 = appendChild defaultCameraEl w6;
               w8 = addEventListener ''enter-vr'' RemoveDefaultOffset w7;
               w9 = addEventListener ''exit-vr'' AddDefaultOffset w8
           in emit (CameraReady (Some defaultCameraEl)) w9))"

text \<open>\<^verbatim>\<open>setupDefaultCamera\<close> (lines 29 to 52): schedules the callback, once.\<close>

definition setupDefaultCamera :: "world \<Rightarrow> world" where
  "setupDefaultCamera w = w\<lparr>timeouts := timeouts w @ [CheckForCamera]\<rparr>"

text \<open>
  \<^verbatim>\<open>bindMethods\<close> (lines 18 to 21) replaces the two methods by copies bound to the
  system; the state of the world is not touched.
\<close>

definition bindMethods :: "world \<Rightarrow> world" where
  "bindMethods w = w"

definition init :: "world \<Rightarrow> world" where
  "init w = bindMethods (setupDefaultCamera (w\<lparr>activeCameraEl := None\<rparr>))"

text \<open>
  \<^verbatim>\<open>addDefaultOffset\<close> and \<^verbatim>\<open>removeDefaultOffset\<close> (lines 59 to 82). Reading
  \<^verbatim>\<open>currentPosition.x\<close> of a null position throws a TypeError.
\<close>

definition addDefaultOffset :: "world \<Rightarrow> error + world" where
  "addDefaultOffset w =
     (case querySelector sel_default_camera w (tree w) of
        None \<Rightarrow> Inr w
      | Some defaultCamera \<Rightarrow>
          (case position (elements w defaultCamera) of
             None \<Rightarrow> Inl TypeError
           | Some currentPosition \<Rightarrow>
               Inr (setAttribute_position defaultCamera
                 \<lparr>x = dadd (x currentPosition) (x DEFAULT_CAMERA_POSITION),
                  y = dadd (y currentPosition) (y DEFAULT_CAMERA_POSITION),
                  z = dadd (z currentPosition) (z DEFAULT_CAMERA_POSITION)\<rparr> w)))"

definition removeDefaultOffset :: "world \<Rightarrow> error + world" where
  "removeDefaultOffset w =
     (case querySelector sel_default_camera w (tree w) of
        None \<Rightarrow> Inr w
      | Some defaultCamera \<Rightarrow>
          (case position (elements w defaultCamera) of
             None \<Rightarrow> Inl TypeError
           | Some currentPosition \<Rightarrow>
               Inr (setAttribute_position defaultCamera
                 \<lparr>x = dsub (x currentPosition) (x DEFAULT_CAMERA_POSITION),
                  y = dsub (y currentPosition) (y DEFAULT_CAMERA_POSITION),
                  z = dsub (z currentPosition) (z DEFAULT_CAMERA_POSITION)\<rparr> w)))"

text \<open>
  \<^verbatim>\<open>disableActiveCamera\<close> (lines 90 to 94). On an empty query result the index is
  \<open>-1\<close>, the entry is undefined, and calling \<^verbatim>\<open>setAttribute\<close> on it throws.
\<close>

definition disableActiveCamera :: "world \<Rightarrow> error + world" where
  "disableActiveCamera w =
     (let cameraEls = querySelectorAll sel_camera w (tree w) in
      case item cameraEls (int (length cameraEls) - 1) of
        None \<Rightarrow> Inl TypeError
      | Some newActiveCameraEl \<Rightarrow> Inr (setAttribute_camera_active newActiveCameraEl True w))"

text \<open>
  \<^verbatim>\<open>removeDefaultCamera\<close> (lines 143 to 154), a function of the module called as
  \<^verbatim>\<open>removeDefaultCamera(sceneEl)\<close>: its \<^verbatim>\<open>this\<close> is the global object.
\<close>

definition removeDefaultCamera :: "world \<Rightarrow> error + world" where
  "removeDefaultCamera w =
     (case camera w of
        None \<Rightarrow> Inr w
      | Some _ \<Rightarrow>
          (case querySelector sel_default_camera w (tree w) of
             None \<Rightarrow> Inr w
           | Some defaultCamera \<Rightarrow>
               (case removeChild defaultCamera w of
                  Inl err \<Rightarrow> Inl err
                | Inr w1 \<Rightarrow>
                    Inr (removeEventListener ''exit-vr''
                           (this_method GlobalObject AddDefaultOffset)
                           (removeEventListener ''enter-vr''
                              (this_method GlobalObject RemoveDefaultOffset) w1)))))"

text \<open>The loop of \<^verbatim>\<open>setActiveCamera\<close> over the query result (lines 128 to 133).\<close>

fun disable_other_cameras :: "nat \<Rightarrow> nat list \<Rightarrow> world \<Rightarrow> world" where
  "disable_other_cameras newCameraEl [] w = w"
| "disable_other_cameras newCameraEl (cameraEl # cameraEls) w =
     (if newCameraEl = cameraEl then disable_other_cameras newCameraEl cameraEls w
      else disable_other_cameras newCameraEl cameraEls
             (pause cameraEl (setAttribute_camera_active cameraEl False w)))"

text \<open>
  The element that \<^verbatim>\<open>setActiveCamera\<close> calls \<^verbatim>\<open>defaultCameraEl\<close> (lines 112 to 114):
  the first \<^verbatim>\<open>[camera]\<close> descendant of the first element that carries the default-camera
  attribute.
\<close>

definition defaultCameraEl_of :: "world \<Rightarrow> nat option" where
  "defaultCameraEl_of w =
     (case querySelector sel_default_camera w (tree w) of
        None \<Rightarrow> None
      | Some defaultCameraWrapper \<Rightarrow>
          (case childNodes defaultCameraWrapper (tree w) of
             None \<Rightarrow> None
           | Some ks \<Rightarrow> querySelector sel_camera w ks))"

text \<open>\<^verbatim>\<open>setActiveCamera\<close> (lines 103 to 135).\<close>

definition setActiveCamera :: "nat \<Rightarrow> world \<Rightarrow> error + world" where
  "setActiveCamera newCameraEl w =
     (let cameraEls = querySelectorAll sel_camera w (tree w);
          previousCamera = activeCameraEl w
      in case object3D_camera (elements w newCameraEl) of
           None \<Rightarrow> Inr w
         | Some newCamera \<Rightarrow>
             if Some newCameraEl = activeCameraEl w then Inr w
             else
               (case (if Some newCameraEl \<noteq> defaultCameraEl_of w
                      then removeDefaultCamera w else Inr w) of
                  Inl err \<Rightarrow> Inl err
                | Inr w1 \<Rightarrow>
                    (let w2 = w1\<lparr>activeCameraEl := Some newCameraEl\<rparr>;
                         w3 = play newCameraEl w2;
                         w4 = w3\<lparr>camera := Some newCamera\<rparr>;
                         w5 = (case previousCamera of
                                 None \<Rightarrow> w4
                               | Some p \<Rightarrow> setAttribute_camera_active p False w4);
                         w6 = disable_other_cameras newCameraEl cameraEls w5
                     in Inr (emit (CameraSetActive newCameraEl) w6))))"

subsection \<open>The life of a system\<close>

text \<open>
  Modelled from the spec: the host's event dispatch and task queue (not part of this
  file). Dispatching an event calls the listeners registered for it, in order of
  registration; an exception in a listener does not reach the others. The task queue
  runs a scheduled callback once.
\<close>

fun call_method :: "bound_method \<Rightarrow> world \<Rightarrow> error + world" where
  "call_method AddDefaultOffset w = addDefaultOffset w"
| "call_method RemoveDefaultOffset w = removeDefaultOffset w"

definition returned :: "world \<Rightarrow> error + world \<Rightarrow> world" where
  "returned w r = (case r of Inl _ \<Rightarrow> w | Inr w' \<Rightarrow> w')"

definition dispatchEvent :: "string \<Rightarrow> world \<Rightarrow> world" where
  "dispatchEvent name w =
     fold (\<lambda>f v. returned v (call_method f v))
       (map snd (filter (\<lambda>l. fst l = name) (listeners w))) w"

definition run_timeout :: "world \<Rightarrow> world" where
  "run_timeout w =
     (case timeouts w of
        [] \<Rightarrow> w
      | CheckForCamera # ts \<Rightarrow> checkForCamera (w\<lparr>timeouts := ts\<rparr>))"

text \<open>
  What can happen to a system after \<^verbatim>\<open>init\<close>: a scheduled callback runs, one of the
  system's methods is called, or the scene enters or leaves VR. \<^verbatim>\<open>init\<close> itself, with
  its call of \<^verbatim>\<open>bindMethods\<close>, begins the life of a system and does not occur in it
  again. A call that throws leaves the world as it was: every throw in this file comes
  before the first write.
\<close>

datatype op =
    RunTimeout
  | CallSetupDefaultCamera
  | CallSetActiveCamera nat
  | CallDisableActiveCamera
  | CallAddDefaultOffset
  | CallRemoveDefaultOffset
  | EnterVR
  | ExitVR

fun step :: "op \<Rightarrow> world \<Rightarrow> world" where
  "step RunTimeout w = run_timeout w"
| "step CallSetupDefaultCamera w = setupDefaultCamera w"
| "step (CallSetActiveCamera e) w = returned w (setActiveCamera e w)"
| "step CallDisableActiveCamera w = returned w (disableActiveCamera w)"
| "step CallAddDefaultOffset w = returned w (addDefaultOffset w)"
| "step CallRemoveDefaultOffset w = returned w (removeDefaultOffset w)"
| "step EnterVR w = dispatchEvent ''enter-vr'' w"
| "step ExitVR w = dispatchEvent ''exit-vr'' w"

definition run :: "op list \<Rightarrow> world \<Rightarrow> world" where
  "run ops w = fold step ops w"

subsection \<open>Concrete scenes\<close>

text \<open>A scene without elements, before the system is initialised.\<close>

definition empty_scene :: world where
  "empty_scene = \<lparr>tree = [], elements = (\<lambda>_. blank_entity), next_el = 0, camera = None,
     listeners = [], emitted = [], timeouts = [], activeCameraEl = None\<rparr>"

text \<open>
  The default camera as \<^verbatim>\<open>checkForCamera\<close> builds it, after its camera component has
  realized a camera object, and an author's camera whose \<^verbatim>\<open>active\<close> sub-field is \<open>a\<close>.
\<close>

definition default_camera_entity :: entity where
  "default_camera_entity = \<lparr>position = Some DEFAULT_CAMERA_POSITION,
     default_camera_attr = True, camera_active = Some True, wasd_controls = True,
     look_controls = True, object3D_camera = Some (Object3D 10 (Some 0)),
     isPlaying = True\<rparr>"

definition user_camera_entity :: "bool \<Rightarrow> entity" where
  "user_camera_entity a = blank_entity\<lparr>camera_active := Some a,
     object3D_camera := Some (Object3D 11 (Some 1))\<rparr>"

text \<open>
  A scene with the default camera (element 0), which is the active camera, followed by
  an author's camera (element 1).
\<close>

definition two_cameras :: "bool \<Rightarrow> world" where
  "two_cameras a = \<lparr>tree = [Node 0 [], Node 1 []],
     elements = (\<lambda>_. blank_entity)(0 := default_camera_entity, 1 := user_camera_entity a),
     next_el = 2, camera = Some (Object3D 10 (Some 0)),
     listeners = [(''enter-vr'', RemoveDefaultOffset), (''exit-vr'', AddDefaultOffset)],
     emitted = [CameraReady (Some 0), CameraSetActive 0], timeouts = [],
     activeCameraEl = Some 0\<rparr>"

text \<open>
  The scene of \<open>two_cameras True\<close> before any camera was activated: the callback has built
  the default camera and announced it, \<^verbatim>\<open>sceneEl.camera\<close> is still unset.
\<close>

definition before_first_activation :: world where
  "before_first_activation =
     (two_cameras True)\<lparr>camera := None, activeCameraEl := None,
        emitted := [CameraReady (Some 0)]\<rparr>"

text \<open>
  The scene of \<open>two_cameras True\<close> with the default camera one level down, as the child
  of a further element.
\<close>

definition nested_default_camera :: world where
  "nested_default_camera = (two_cameras True)\<lparr>tree := [Node 2 [Node 0 []], Node 1 []]\<rparr>"

text \<open>The scene of \<open>two_cameras True\<close> with the default camera lowered to \<open>y = 0.1\<close>.\<close>

definition lowered_default_camera :: world where
  "lowered_default_camera =
     setAttribute_position 0 \<lparr>x = double_0, y = double_0_1, z = double_4\<rparr> (two_cameras True)"


text \<open>The \<^verbatim>\<open>camera-ready\<close> events of the log, in order of emission.\<close>

fun is_camera_ready :: "event \<Rightarrow> bool" where
  "is_camera_ready (CameraReady _) = True"
| "is_camera_ready (CameraSetActive _) = False"

definition camera_ready_events :: "world \<Rightarrow> event list" where
  "camera_ready_events w = filter is_camera_ready (emitted w)"

section \<open>Properties\<close>

subsection \<open>Auxiliary facts\<close>

lemmas fixture_defs = empty_scene_def default_camera_entity_def user_camera_entity_def
  two_cameras_def blank_entity_def

lemmas query_defs = querySelector_def querySelectorAll_def sel_camera_def
  sel_default_camera_def

lemmas system_defs = setActiveCamera_def defaultCameraEl_of_def removeDefaultCamera_def
  removeChild_def removeEventListener_def emit_def play_def pause_def
  setAttribute_camera_active_def setAttribute_position_def update_el_def Let_def

declare bitlen.simps [simp del]

lemmas double_defs = round_finite_def signed_def dsub_def bitlen.simps
  double_0_def double_1_8_def double_4_def double_0_1_def double_3_6_def double_8_def

lemmas life_defs = run_def run_timeout_def init_def bindMethods_def setupDefaultCamera_def
  checkForCamera_def createElement_def appendChild_def addEventListener_def
  setAttribute_default_camera_def setAttribute_wasd_controls_def
  setAttribute_look_controls_def returned_def dispatchEvent_def
  addDefaultOffset_def removeDefaultOffset_def DEFAULT_CAMERA_POSITION_def
  camera_ready_events_def

lemma update_el_fields [simp]:
  "tree (update_el e f w) = tree w"
  "next_el (update_el e f w) = next_el w"
  "camera (update_el e f w) = camera w"
  "listeners (update_el e f w) = listeners w"
  "emitted (update_el e f w) = emitted w"
  "timeouts (update_el e f w) = timeouts w"
  "activeCameraEl (update_el e f w) = activeCameraEl w"
  "elements (update_el e f w) = (elements w)(e := f (elements w e))"
  by (simp_all add: update_el_def)

lemma querySelectorAll_same:
  assumes "\<And>e. sel (elements v e) = sel (elements w e)"
  shows "querySelectorAll sel v ns = querySelectorAll sel w ns"
  by (simp add: querySelectorAll_def assms)

lemma querySelector_same:
  assumes "\<And>e. sel (elements v e) = sel (elements w e)"
  shows "querySelector sel v ns = querySelector sel w ns"
  by (simp add: querySelector_def querySelectorAll_same [OF assms])

lemma default_attr_setAttribute_position [simp]:
  "sel_default_camera (elements (setAttribute_position d p w) e) =
     sel_default_camera (elements w e)"
  by (simp add: setAttribute_position_def sel_default_camera_def)

lemma item_last: "xs \<noteq> [] \<Longrightarrow> item xs (int (length xs) - 1) = Some (last xs)"
  by (simp add: item_def last_conv_nth nat_diff_distrib')

lemma disable_other_cameras_frame:
  "tree (disable_other_cameras t cs w) = tree w \<and>
   next_el (disable_other_cameras t cs w) = next_el w \<and>
   camera (disable_other_cameras t cs w) = camera w \<and>
   listeners (disable_other_cameras t cs w) = listeners w \<and>
   emitted (disable_other_cameras t cs w) = emitted w \<and>
   timeouts (disable_other_cameras t cs w) = timeouts w \<and>
   activeCameraEl (disable_other_cameras t cs w) = activeCameraEl w"
  by (induction t cs w rule: disable_other_cameras.induct)
    (simp_all add: pause_def setAttribute_camera_active_def)

lemma disable_other_cameras_fields [simp]:
  "tree (disable_other_cameras t cs w) = tree w"
  "next_el (disable_other_cameras t cs w) = next_el w"
  "camera (disable_other_cameras t cs w) = camera w"
  "listeners (disable_other_cameras t cs w) = listeners w"
  "emitted (disable_other_cameras t cs w) = emitted w"
  "timeouts (disable_other_cameras t cs w) = timeouts w"
  "activeCameraEl (disable_other_cameras t cs w) = activeCameraEl w"
  using disable_other_cameras_frame [of t cs w] by simp_all

lemma disable_other_cameras_elements:
  "elements (disable_other_cameras t cs w) e =
     (if e \<in> set cs \<and> e \<noteq> t
      then (elements w e)\<lparr>camera_active := Some False, isPlaying := False\<rparr>
      else elements w e)"
  by (induction cs arbitrary: w) (auto simp: pause_def setAttribute_camera_active_def)

lemma remove_child_descendants:
  "remove_child d ns = Some ms \<Longrightarrow> set (descendants ms) \<subseteq> set (descendants ns)"
  by (induction d ns arbitrary: ms rule: remove_child.induct) (auto split: if_splits)

lemma remove_child_member:
  "remove_child d ns = Some ms \<Longrightarrow> d \<in> set (descendants ns)"
  by (induction d ns arbitrary: ms rule: remove_child.induct) (auto split: if_splits)

lemma remove_child_gone:
  "remove_child d ns = Some ms \<Longrightarrow> distinct (descendants ns) \<Longrightarrow> d \<notin> set (descendants ms)"
proof (induction d ns arbitrary: ms rule: remove_child.induct)
  case (1 d)
  then show ?case by simp
next
  case (2 d e ks ns)
  show ?case
  proof (cases "e = d")
    case True
    with 2 show ?thesis by auto
  next
    case False
    with 2 show ?thesis by (auto split: if_splits dest: remove_child_member)
  qed
qed

lemma removeDefaultCamera_result:
  assumes "removeDefaultCamera w = Inr w1"
  shows "w1 = w\<lparr>tree := tree w1\<rparr>"
    and "tree w1 = tree w \<or>
         (\<exists>d. camera w \<noteq> None \<and> querySelector sel_default_camera w (tree w) = Some d \<and>
              remove_child d (tree w) = Some (tree w1))"
  using assms
  by (auto simp: removeDefaultCamera_def removeChild_def removeEventListener_def
      split: option.splits sum.splits)

subsection \<open>The guard of \<^verbatim>\<open>setActiveCamera\<close>\<close>

lemma setActiveCamera_guard:
  "object3D_camera (elements w t) = None \<or> activeCameraEl w = Some t \<Longrightarrow>
     setActiveCamera t w = Inr w"
  by (auto simp: setActiveCamera_def Let_def split: option.splits)

text \<open>
  C5. A call of \<^verbatim>\<open>setActiveCamera\<close> whose target has no realized camera object, or
  whose target already is \<^verbatim>\<open>activeCameraEl\<close>, returns normally and leaves the whole
  world as it was: \<^verbatim>\<open>activeCameraEl\<close>, \<^verbatim>\<open>sceneEl.camera\<close>, the attributes of every
  element, and the log of emitted events (so no \<^verbatim>\<open>camera-set-active\<close> is emitted).
\<close>

theorem setActiveCamera_noop:
  assumes "object3D_camera (elements w newCameraEl) = None \<or>
           activeCameraEl w = Some newCameraEl"
  shows "setActiveCamera newCameraEl w = Inr w"
  using assms by (auto simp: setActiveCamera_def Let_def split: option.splits)

theorem setActiveCamera_noop_witness:
  "activeCameraEl (two_cameras True) = Some 0 \<and>
   object3D_camera (elements (two_cameras True) 7) = None \<and>
   setActiveCamera 0 (two_cameras True) = Inr (two_cameras True) \<and>
   setActiveCamera 7 (two_cameras True) = Inr (two_cameras True)"
proof -
  have a: "activeCameraEl (two_cameras True) = Some 0"
    by (simp add: fixture_defs)
  have b: "object3D_camera (elements (two_cameras True) 7) = None"
    by (simp add: fixture_defs)
  show ?thesis
    using a b setActiveCamera_noop [OF disjI2, OF a] setActiveCamera_noop [OF disjI1, OF b]
    by simp
qed

subsection \<open>\<^verbatim>\<open>disableActiveCamera\<close>\<close>

text \<open>
  C4. When no element of the scene carries a camera attribute, the query result of
  \<^verbatim>\<open>disableActiveCamera\<close> is empty, the entry it reads at index \<open>length - 1\<close> is
  undefined, and the call throws a TypeError instead of returning.
\<close>

theorem disableActiveCamera_empty_query:
  assumes "querySelectorAll sel_camera w (tree w) = []"
  shows "item (querySelectorAll sel_camera w (tree w))
           (int (length (querySelectorAll sel_camera w (tree w))) - 1) = None \<and>
         disableActiveCamera w = Inl TypeError"
  using assms by (simp add: disableActiveCamera_def item_def)

theorem disableActiveCamera_empty_query_witness:
  "querySelectorAll sel_camera empty_scene (tree empty_scene) = [] \<and>
   disableActiveCamera empty_scene = Inl TypeError"
proof -
  have h: "querySelectorAll sel_camera empty_scene (tree empty_scene) = []"
    by (simp add: fixture_defs query_defs)
  show ?thesis
    using h disableActiveCamera_empty_query [OF h] by simp
qed

text \<open>
  C6. When the scene has an element with a camera attribute, \<^verbatim>\<open>disableActiveCamera\<close>
  returns, the last such element in document order has its \<^verbatim>\<open>active\<close> sub-field set to
  true, \<^verbatim>\<open>activeCameraEl\<close> is not changed, and no other element is written at all (so
  none is set to false).
\<close>

theorem disableActiveCamera_last:
  assumes "querySelectorAll sel_camera w (tree w) = cameraEls" and "cameraEls \<noteq> []"
  shows "\<exists>w'. disableActiveCamera w = Inr w' \<and>
           camera_active (elements w' (last cameraEls)) = Some True \<and>
           activeCameraEl w' = activeCameraEl w \<and>
           (\<forall>e. e \<noteq> last cameraEls \<longrightarrow> elements w' e = elements w e)"
  using assms
  by (simp add: disableActiveCamera_def item_last setAttribute_camera_active_def)

theorem disableActiveCamera_last_witness:
  "querySelectorAll sel_camera (two_cameras False) (tree (two_cameras False)) = [0, 1] \<and>
   (\<exists>w'. disableActiveCamera (two_cameras False) = Inr w' \<and>
      camera_active (elements w' 1) = Some True \<and>
      activeCameraEl w' = Some 0 \<and>
      camera_active (elements w' 0) = Some True)"
proof -
  have h: "querySelectorAll sel_camera (two_cameras False) (tree (two_cameras False)) = [0, 1]"
    by (simp add: fixture_defs query_defs)
  have a: "activeCameraEl (two_cameras False) = Some 0"
    "camera_active (elements (two_cameras False) 0) = Some True"
    by (simp_all add: fixture_defs)
  have ne: "[0::nat, 1] \<noteq> []"
    by simp
  from disableActiveCamera_last [OF h ne] obtain w' where
    "disableActiveCamera (two_cameras False) = Inr w'"
    "camera_active (elements w' (last [0::nat, 1])) = Some True"
    "activeCameraEl w' = activeCameraEl (two_cameras False)"
    "\<forall>e. e \<noteq> last [0::nat, 1] \<longrightarrow> elements w' e = elements (two_cameras False) e"
    by blast
  with h a show ?thesis by simp
qed

subsection \<open>The position offset\<close>

text \<open>The literals of line 4 and the decimal numbers used below, as doubles.\<close>

lemma double_literals:
  "valof double_0 = Some 0"
  "valof double_1_8 = Some (8106479329266893 / 2 ^ 52)"
  "\<bar>8106479329266893 / 2 ^ 52 - 18 / 10\<bar> < (1 / 2 ^ 53 :: real)"
  "valof double_4 = Some 4"
  "valof double_0_1 = Some (7205759403792794 / 2 ^ 56)"
  "\<bar>7205759403792794 / 2 ^ 56 - 1 / 10\<bar> < (1 / 2 ^ 57 :: real)"
  "valof double_3_6 = Some (8106479329266893 / 2 ^ 51)"
  "valof double_8 = Some 8"
  by (simp_all add: double_0_def double_1_8_def double_4_def double_0_1_def double_3_6_def
      double_8_def power_int_minus field_simps)

lemma double_sums:
  "dsub double_0 double_0 = double_0"
  "dsub double_1_8 double_1_8 = double_0"
  "dsub double_4 double_4 = double_0"
  "dadd double_0 double_0 = double_0"
  "dadd double_0 double_1_8 = double_1_8"
  "dadd double_0 double_4 = double_4"
  "dadd double_1_8 double_1_8 = double_3_6"
  "dadd double_4 double_4 = double_8"
  by (simp_all add: double_defs Let_def)

text \<open>
  C7, as stated, fails: the default camera stands at \<open>(0, 0.1, 4)\<close>. Both calls return;
  \<open>0.1 - 1.8\<close> is rounded to \<open>-1.7000000000000002\<close>, and adding \<open>1.8\<close> gives
  \<open>0.10000000000000009\<close>, the double \<open>7205759403792800 * 2^-56\<close>, not the
  \<open>7205759403792794 * 2^-56\<close> it started from.
\<close>

theorem offset_round_trip_counterexample:
  "querySelector sel_default_camera lowered_default_camera (tree lowered_default_camera) =
     Some 0 \<and>
   position (elements lowered_default_camera 0) =
     Some \<lparr>x = double_0, y = Finite False 7205759403792794 (- 56), z = double_4\<rparr> \<and>
   \<not> isl (removeDefaultOffset lowered_default_camera) \<and>
   position (elements (projr (removeDefaultOffset lowered_default_camera)) 0) =
     Some \<lparr>x = double_0, y = Finite True 7656119366529843 (- 52), z = double_0\<rparr> \<and>
   \<not> isl (addDefaultOffset (projr (removeDefaultOffset lowered_default_camera))) \<and>
   position (elements
       (projr (addDefaultOffset (projr (removeDefaultOffset lowered_default_camera)))) 0) =
     Some \<lparr>x = double_0, y = Finite False 7205759403792800 (- 56), z = double_4\<rparr>"
  by (simp add: lowered_default_camera_def removeDefaultOffset_def addDefaultOffset_def
      setAttribute_position_def update_el_def DEFAULT_CAMERA_POSITION_def fixture_defs
      query_defs double_defs Let_def)

text \<open>
  C7, amended. While the element with the default-camera attribute is in the scene and
  stands at the default spawn position \<open>(0, 1.8, 4)\<close>, \<^verbatim>\<open>removeDefaultOffset\<close> followed
  by \<^verbatim>\<open>addDefaultOffset\<close> both return and bring its position back to exactly that
  value, in the arithmetic of doubles; nothing else has changed either.
\<close>

theorem offset_round_trip_at_spawn:
  assumes "querySelector sel_default_camera w (tree w) = Some defaultCamera"
    and "position (elements w defaultCamera) = Some DEFAULT_CAMERA_POSITION"
  shows "\<exists>w1 w2. removeDefaultOffset w = Inr w1 \<and> addDefaultOffset w1 = Inr w2 \<and>
           position (elements w2 defaultCamera) = Some DEFAULT_CAMERA_POSITION \<and> w2 = w"
proof -
  define q where "q = \<lparr>x = double_0, y = double_0, z = double_0\<rparr>"
  define w1 where "w1 = setAttribute_position defaultCamera q w"
  have r: "removeDefaultOffset w = Inr w1"
    using assms
    by (simp add: removeDefaultOffset_def w1_def q_def DEFAULT_CAMERA_POSITION_def double_sums)
  have t: "tree w1 = tree w"
    by (simp add: setAttribute_position_def w1_def)
  have "querySelector sel_default_camera w1 (tree w) =
        querySelector sel_default_camera w (tree w)"
    unfolding w1_def by (rule querySelector_same) simp
  then have s: "querySelector sel_default_camera w1 (tree w1) = Some defaultCamera"
    using assms(1) t by simp
  have p1: "position (elements w1 defaultCamera) = Some q"
    by (simp add: w1_def setAttribute_position_def)
  have "(elements w defaultCamera)\<lparr>position := position (elements w defaultCamera)\<rparr> =
        elements w defaultCamera"
    by simp
  then have "(elements w defaultCamera)\<lparr>position := Some DEFAULT_CAMERA_POSITION\<rparr> =
        elements w defaultCamera"
    using assms(2) by simp
  then have restore: "setAttribute_position defaultCamera DEFAULT_CAMERA_POSITION w1 = w"
    by (simp add: w1_def setAttribute_position_def update_el_def)
  have "addDefaultOffset w1 = Inr (setAttribute_position defaultCamera DEFAULT_CAMERA_POSITION w1)"
    by (simp add: addDefaultOffset_def s p1 q_def DEFAULT_CAMERA_POSITION_def double_sums)
  with r restore assms(2) show ?thesis by simp
qed

theorem offset_round_trip_at_spawn_witness:
  "querySelector sel_default_camera (two_cameras True) (tree (two_cameras True)) = Some 0 \<and>
   position (elements (two_cameras True) 0) =
     Some \<lparr>x = double_0, y = double_1_8, z = double_4\<rparr> \<and>
   (\<exists>w1 w2. removeDefaultOffset (two_cameras True) = Inr w1 \<and>
      addDefaultOffset w1 = Inr w2 \<and>
      position (elements w2 0) = Some \<lparr>x = double_0, y = double_1_8, z = double_4\<rparr> \<and>
      w2 = two_cameras True)"
proof -
  have h1: "querySelector sel_default_camera (two_cameras True) (tree (two_cameras True)) =
            Some 0"
    by (simp add: fixture_defs query_defs)
  have h2: "position (elements (two_cameras True) 0) = Some DEFAULT_CAMERA_POSITION"
    by (simp add: fixture_defs)
  show ?thesis
    using h1 h2 offset_round_trip_at_spawn [OF h1 h2]
    by (simp add: DEFAULT_CAMERA_POSITION_def)
qed

subsection \<open>Switching the active camera\<close>

lemma removeDefaultCamera_fields:
  assumes "removeDefaultCamera w = Inr w1"
  shows "elements w1 = elements w" "camera w1 = camera w" "listeners w1 = listeners w"
    "emitted w1 = emitted w" "timeouts w1 = timeouts w" "activeCameraEl w1 = activeCameraEl w"
    "next_el w1 = next_el w"
  using assms
  by (auto simp: removeDefaultCamera_def removeChild_def removeEventListener_def
      split: option.splits sum.splits)

lemma setActiveCamera_switch:
  assumes "object3D_camera (elements w t) = Some c" and "activeCameraEl w \<noteq> Some t"
    and "setActiveCamera t w = Inr w'"
  shows "\<exists>w1. (if Some t \<noteq> defaultCameraEl_of w then removeDefaultCamera w else Inr w) = Inr w1 \<and>
          tree w' = tree w1"
    and "camera w' = Some c"
    and "activeCameraEl w' = Some t"
    and "listeners w' = listeners w"
    and "timeouts w' = timeouts w"
    and "next_el w' = next_el w"
    and "emitted w' = emitted w @ [CameraSetActive t]"
    and "elements w' t = (elements w t)\<lparr>isPlaying := True\<rparr>"
    and "\<And>e. e \<noteq> t \<Longrightarrow> elements w' e =
           (if e \<in> set (querySelectorAll sel_camera w (tree w))
            then (elements w e)\<lparr>camera_active := Some False, isPlaying := False\<rparr>
            else if activeCameraEl w = Some e then (elements w e)\<lparr>camera_active := Some False\<rparr>
            else elements w e)"
proof -
  from assms obtain w1 where
    w1: "(if Some t \<noteq> defaultCameraEl_of w then removeDefaultCamera w else Inr w) = Inr w1"
    and w': "w' = emit (CameraSetActive t)
       (disable_other_cameras t (querySelectorAll sel_camera w (tree w))
         (case activeCameraEl w of
            None \<Rightarrow> (play t (w1\<lparr>activeCameraEl := Some t\<rparr>))\<lparr>camera := Some c\<rparr>
          | Some p \<Rightarrow> setAttribute_camera_active p False
                       ((play t (w1\<lparr>activeCameraEl := Some t\<rparr>))\<lparr>camera := Some c\<rparr>)))"
    by (auto simp: setActiveCamera_def Let_def split: sum.splits if_splits)
  have f: "elements w1 = elements w" "listeners w1 = listeners w"
    "emitted w1 = emitted w" "timeouts w1 = timeouts w" "next_el w1 = next_el w"
    using w1 removeDefaultCamera_fields [of w w1] by (auto split: if_splits)
  show "\<exists>w1. (if Some t \<noteq> defaultCameraEl_of w then removeDefaultCamera w else Inr w) = Inr w1 \<and>
          tree w' = tree w1"
    using w1 by (auto simp: w' emit_def play_def setAttribute_camera_active_def split: option.splits)
  show "camera w' = Some c" "activeCameraEl w' = Some t" "listeners w' = listeners w"
    "timeouts w' = timeouts w" "next_el w' = next_el w"
    "emitted w' = emitted w @ [CameraSetActive t]"
    by (simp_all add: w' emit_def play_def setAttribute_camera_active_def f split: option.splits)
  show "elements w' t = (elements w t)\<lparr>isPlaying := True\<rparr>"
    using assms(2)
    by (simp add: w' emit_def disable_other_cameras_elements play_def
        setAttribute_camera_active_def f split: option.splits)
  show "\<And>e. e \<noteq> t \<Longrightarrow> elements w' e =
           (if e \<in> set (querySelectorAll sel_camera w (tree w))
            then (elements w e)\<lparr>camera_active := Some False, isPlaying := False\<rparr>
            else if activeCameraEl w = Some e then (elements w e)\<lparr>camera_active := Some False\<rparr>
            else elements w e)"
    by (simp add: w' emit_def disable_other_cameras_elements play_def
        setAttribute_camera_active_def f split: option.splits)
qed

lemma switch_tree_subset:
  assumes "(if Some t \<noteq> defaultCameraEl_of w then removeDefaultCamera w else Inr w) = Inr w1"
  shows "set (descendants (tree w1)) \<subseteq> set (descendants (tree w))"
proof (cases "Some t \<noteq> defaultCameraEl_of w")
  case True
  with assms have "removeDefaultCamera w = Inr w1" by simp
  from removeDefaultCamera_result(2) [OF this] show ?thesis
    by (auto dest: remove_child_descendants)
next
  case False
  with assms show ?thesis by simp
qed

text \<open>
  C9. \<^verbatim>\<open>setActiveCamera\<close> never writes the camera attribute of its target: after a call
  that returns, the target's \<^verbatim>\<open>active\<close> sub-field is what it was before. When the call
  gets past its guard, the previous active camera and every other \<^verbatim>\<open>[camera]\<close> element
  of the scene have theirs set to false.
\<close>

theorem setActiveCamera_target_attribute_kept:
  assumes "setActiveCamera newCameraEl w = Inr w'"
  shows "camera_active (elements w' newCameraEl) = camera_active (elements w newCameraEl) \<and>
     (object3D_camera (elements w newCameraEl) \<noteq> None \<and> activeCameraEl w \<noteq> Some newCameraEl \<longrightarrow>
        (\<forall>e. e \<noteq> newCameraEl \<and>
             (e \<in> set (querySelectorAll sel_camera w (tree w)) \<or> activeCameraEl w = Some e) \<longrightarrow>
             camera_active (elements w' e) = Some False))"
proof (cases "object3D_camera (elements w newCameraEl) = None \<or> activeCameraEl w = Some newCameraEl")
  case True
  then have "setActiveCamera newCameraEl w = Inr w"
    by (auto simp: setActiveCamera_def Let_def split: option.splits)
  with assms True show ?thesis by auto
next
  case False
  then obtain c where c: "object3D_camera (elements w newCameraEl) = Some c"
    and a: "activeCameraEl w \<noteq> Some newCameraEl" by auto
  note sw = setActiveCamera_switch [OF c a assms]
  from sw(8) have "camera_active (elements w' newCameraEl) = camera_active (elements w newCameraEl)"
    by simp
  moreover have "camera_active (elements w' e) = Some False"
    if "e \<noteq> newCameraEl"
      and "e \<in> set (querySelectorAll sel_camera w (tree w)) \<or> activeCameraEl w = Some e" for e
    using sw(9) [OF that(1)] that(2) by auto
  ultimately show ?thesis by blast
qed

theorem setActiveCamera_target_attribute_kept_witness:
  "\<exists>w'. setActiveCamera 1 (two_cameras False) = Inr w' \<and>
      camera_active (elements (two_cameras False) 1) = Some False \<and>
      camera_active (elements w' 1) = Some False \<and>
      camera_active (elements w' 0) = Some False"
proof -
  have q: "querySelectorAll sel_camera (two_cameras False) (tree (two_cameras False)) = [0, 1]"
    by (simp add: fixture_defs query_defs)
  have h: "object3D_camera (elements (two_cameras False) 1) \<noteq> None"
    "activeCameraEl (two_cameras False) \<noteq> Some 1"
    "camera_active (elements (two_cameras False) 1) = Some False"
    by (simp_all add: fixture_defs)
  have "\<exists>w'. setActiveCamera 1 (two_cameras False) = Inr w'"
    by (simp add: system_defs fixture_defs query_defs)
  then obtain w' where r: "setActiveCamera 1 (two_cameras False) = Inr w'" ..
  from setActiveCamera_target_attribute_kept [OF r] h q r show ?thesis by simp
qed

text \<open>
  C1, as stated, fails: the author's camera (element 1) has a realized camera object,
  is not the active camera, and its \<^verbatim>\<open>active\<close> sub-field is false. The call returns,
  the default camera has left the scene, and the one \<^verbatim>\<open>[camera]\<close> element of the scene,
  the target, still has \<^verbatim>\<open>active\<close> false: no camera is active.
\<close>

theorem setActiveCamera_single_activation_counterexample:
  "object3D_camera (elements (two_cameras False) 1) = Some (Object3D 11 (Some 1)) \<and>
   activeCameraEl (two_cameras False) = Some 0 \<and>
   \<not> isl (setActiveCamera 1 (two_cameras False)) \<and>
   camera_active (elements (projr (setActiveCamera 1 (two_cameras False))) 1) = Some False \<and>
   querySelectorAll sel_camera (projr (setActiveCamera 1 (two_cameras False)))
     (tree (projr (setActiveCamera 1 (two_cameras False)))) = [1]"
  by (simp add: system_defs fixture_defs query_defs)

text \<open>
  C1, amended. After a call of \<^verbatim>\<open>setActiveCamera\<close> that gets past its guard and
  returns, \<^verbatim>\<open>sceneEl.camera\<close> is the target's realized camera object,
  \<^verbatim>\<open>activeCameraEl\<close> is the target, the target's own \<^verbatim>\<open>active\<close> sub-field is what it
  was before the call, and every other \<^verbatim>\<open>[camera]\<close> element of the scene has
  \<^verbatim>\<open>active\<close> false. So the target is the one active camera exactly when its
  sub-field was true already.
\<close>

theorem setActiveCamera_switch_effect:
  assumes "object3D_camera (elements w newCameraEl) = Some newCamera"
    and "activeCameraEl w \<noteq> Some newCameraEl"
    and "setActiveCamera newCameraEl w = Inr w'"
  shows "camera w' = Some newCamera \<and> activeCameraEl w' = Some newCameraEl \<and>
     camera_active (elements w' newCameraEl) = camera_active (elements w newCameraEl) \<and>
     (\<forall>e \<in> set (querySelectorAll sel_camera w' (tree w')).
        e \<noteq> newCameraEl \<longrightarrow> camera_active (elements w' e) = Some False)"
proof -
  note sw = setActiveCamera_switch [OF assms]
  have others: "camera_active (elements w' e) = Some False"
    if e: "e \<in> set (querySelectorAll sel_camera w' (tree w'))" and ne: "e \<noteq> newCameraEl" for e
  proof -
    from sw(1) obtain w1 where
      w1: "(if Some newCameraEl \<noteq> defaultCameraEl_of w then removeDefaultCamera w else Inr w) = Inr w1"
      and t: "tree w' = tree w1" by blast
    from e have in_tree: "e \<in> set (descendants (tree w))" and sel: "sel_camera (elements w' e)"
      using switch_tree_subset [OF w1] t by (auto simp: querySelectorAll_def)
    show ?thesis
    proof (cases "e \<in> set (querySelectorAll sel_camera w (tree w)) \<or> activeCameraEl w = Some e")
      case True
      then show ?thesis using sw(9) [OF ne] by auto
    next
      case False
      then have "elements w' e = elements w e" using sw(9) [OF ne] by simp
      with sel in_tree False show ?thesis by (simp add: querySelectorAll_def)
    qed
  qed
  from sw(2,3,8) others show ?thesis by simp
qed

theorem setActiveCamera_switch_effect_witness:
  "\<exists>w'. setActiveCamera 1 (two_cameras True) = Inr w' \<and>
      camera w' = Some (Object3D 11 (Some 1)) \<and> activeCameraEl w' = Some 1 \<and>
      camera_active (elements w' 1) = Some True"
proof -
  have h1: "object3D_camera (elements (two_cameras True) 1) = Some (Object3D 11 (Some 1))"
    by (simp add: fixture_defs)
  have h2: "activeCameraEl (two_cameras True) \<noteq> Some 1"
    by (simp add: fixture_defs)
  have h3: "camera_active (elements (two_cameras True) 1) = Some True"
    by (simp add: fixture_defs)
  have "\<exists>w'. setActiveCamera 1 (two_cameras True) = Inr w'"
    by (simp add: system_defs fixture_defs query_defs)
  then obtain w' where r: "setActiveCamera 1 (two_cameras True) = Inr w'" ..
  from setActiveCamera_switch_effect [OF h1 h2 r] h3 r show ?thesis by simp
qed

text \<open>
  C10. While \<^verbatim>\<open>sceneEl.camera\<close> is unset, \<^verbatim>\<open>removeDefaultCamera\<close> returns the world
  unchanged, and any call of \<^verbatim>\<open>setActiveCamera\<close> returns with the scene graph and the
  registered listeners as they were: the default camera stays in the scene and the
  \<^verbatim>\<open>enter-vr\<close> and \<^verbatim>\<open>exit-vr\<close> listeners stay registered.
\<close>

theorem removeDefaultCamera_needs_scene_camera:
  assumes "camera w = None"
  shows "removeDefaultCamera w = Inr w \<and>
     (\<exists>w'. setActiveCamera newCameraEl w = Inr w' \<and> tree w' = tree w \<and>
        listeners w' = listeners w \<and>
        querySelector sel_default_camera w' (tree w') =
          querySelector sel_default_camera w (tree w))"
proof -
  have r: "removeDefaultCamera w = Inr w"
    using assms by (simp add: removeDefaultCamera_def)
  show ?thesis
  proof (cases "object3D_camera (elements w newCameraEl) = None \<or>
      activeCameraEl w = Some newCameraEl")
    case True
    then have "setActiveCamera newCameraEl w = Inr w" by (rule setActiveCamera_guard)
    with r show ?thesis by simp
  next
    case False
    then obtain c where c: "object3D_camera (elements w newCameraEl) = Some c"
      and a: "activeCameraEl w \<noteq> Some newCameraEl" by auto
    have "(if Some newCameraEl \<noteq> defaultCameraEl_of w then removeDefaultCamera w else Inr w) =
        Inr w"
      using r by simp
    with c a have "\<exists>w'. setActiveCamera newCameraEl w = Inr w'"
      by (simp add: setActiveCamera_def Let_def)
    then obtain w' where w': "setActiveCamera newCameraEl w = Inr w'" ..
    note sw = setActiveCamera_switch [OF c a w']
    from sw(1) r have t: "tree w' = tree w" by (auto split: if_splits)
    have "sel_default_camera (elements w' e) = sel_default_camera (elements w e)" for e
      using sw(8) sw(9) [of e] by (cases "e = newCameraEl") (auto simp: sel_default_camera_def)
    then have "querySelector sel_default_camera w' (tree w) =
        querySelector sel_default_camera w (tree w)"
      by (rule querySelector_same)
    with r w' t sw(4) show ?thesis by simp
  qed
qed

theorem removeDefaultCamera_needs_scene_camera_witness:
  "camera before_first_activation = None \<and>
   removeDefaultCamera before_first_activation = Inr before_first_activation \<and>
   (\<exists>w'. setActiveCamera 1 before_first_activation = Inr w' \<and>
      tree w' = [Node 0 [], Node 1 []] \<and>
      listeners w' = [(''enter-vr'', RemoveDefaultOffset), (''exit-vr'', AddDefaultOffset)] \<and>
      querySelector sel_default_camera w' (tree w') = Some 0)"
proof -
  have h: "camera before_first_activation = None"
    by (simp add: before_first_activation_def)
  have f: "tree before_first_activation = [Node 0 [], Node 1 []]"
    "listeners before_first_activation =
       [(''enter-vr'', RemoveDefaultOffset), (''exit-vr'', AddDefaultOffset)]"
    "querySelector sel_default_camera before_first_activation
       (tree before_first_activation) = Some 0"
    by (simp_all add: before_first_activation_def fixture_defs query_defs)
  from removeDefaultCamera_needs_scene_camera [OF h, of 1] h f show ?thesis
    by auto
qed

subsection \<open>What the operations leave alone\<close>

lemma offset_frame:
  assumes "r = addDefaultOffset w \<or> r = removeDefaultOffset w"
  shows "tree (returned w r) = tree w \<and> timeouts (returned w r) = timeouts w \<and>
     emitted (returned w r) = emitted w \<and> listeners (returned w r) = listeners w \<and>
     camera (returned w r) = camera w \<and> next_el (returned w r) = next_el w \<and>
     activeCameraEl (returned w r) = activeCameraEl w \<and>
     (\<forall>e. default_camera_attr (elements (returned w r) e) = default_camera_attr (elements w e))"
  using assms
  by (auto simp: addDefaultOffset_def removeDefaultOffset_def returned_def
      setAttribute_position_def split: option.splits if_splits)

lemma call_method_frame:
  "tree (returned w (call_method f w)) = tree w \<and>
   timeouts (returned w (call_method f w)) = timeouts w \<and>
   emitted (returned w (call_method f w)) = emitted w \<and>
   listeners (returned w (call_method f w)) = listeners w \<and>
   camera (returned w (call_method f w)) = camera w \<and>
   next_el (returned w (call_method f w)) = next_el w \<and>
   activeCameraEl (returned w (call_method f w)) = activeCameraEl w \<and>
   (\<forall>e. default_camera_attr (elements (returned w (call_method f w)) e) =
        default_camera_attr (elements w e))"
  by (cases f) (simp_all add: offset_frame)

lemma fold_call_method_frame:
  "tree (fold (\<lambda>f v. returned v (call_method f v)) fs w) = tree w \<and>
   timeouts (fold (\<lambda>f v. returned v (call_method f v)) fs w) = timeouts w \<and>
   emitted (fold (\<lambda>f v. returned v (call_method f v)) fs w) = emitted w \<and>
   listeners (fold (\<lambda>f v. returned v (call_method f v)) fs w) = listeners w \<and>
   camera (fold (\<lambda>f v. returned v (call_method f v)) fs w) = camera w \<and>
   next_el (fold (\<lambda>f v. returned v (call_method f v)) fs w) = next_el w \<and>
   activeCameraEl (fold (\<lambda>f v. returned v (call_method f v)) fs w) = activeCameraEl w \<and>
   (\<forall>e. default_camera_attr (elements (fold (\<lambda>f v. returned v (call_method f v)) fs w) e) =
        default_camera_attr (elements w e))"
proof (induction fs arbitrary: w)
  case Nil
  show ?case by simp
next
  case (Cons f fs)
  from Cons [of "returned w (call_method f w)"] call_method_frame [of w f]
  show ?case by simp
qed

lemma dispatchEvent_frame:
  "tree (dispatchEvent n w) = tree w \<and>
   timeouts (dispatchEvent n w) = timeouts w \<and>
   emitted (dispatchEvent n w) = emitted w \<and>
   listeners (dispatchEvent n w) = listeners w \<and>
   camera (dispatchEvent n w) = camera w \<and>
   next_el (dispatchEvent n w) = next_el w \<and>
   activeCameraEl (dispatchEvent n w) = activeCameraEl w \<and>
   (\<forall>e. default_camera_attr (elements (dispatchEvent n w) e) =
        default_camera_attr (elements w e))"
  unfolding dispatchEvent_def by (rule fold_call_method_frame)

lemma disableActiveCamera_frame:
  "tree (returned w (disableActiveCamera w)) = tree w \<and>
   timeouts (returned w (disableActiveCamera w)) = timeouts w \<and>
   emitted (returned w (disableActiveCamera w)) = emitted w \<and>
   listeners (returned w (disableActiveCamera w)) = listeners w \<and>
   camera (returned w (disableActiveCamera w)) = camera w \<and>
   next_el (returned w (disableActiveCamera w)) = next_el w \<and>
   activeCameraEl (returned w (disableActiveCamera w)) = activeCameraEl w \<and>
   (\<forall>e. default_camera_attr (elements (returned w (disableActiveCamera w)) e) =
        default_camera_attr (elements w e))"
  by (auto simp: disableActiveCamera_def returned_def Let_def setAttribute_camera_active_def
      split: option.splits if_splits)

lemma setActiveCamera_frame:
  "set (descendants (tree (returned w (setActiveCamera t w)))) \<subseteq> set (descendants (tree w)) \<and>
   timeouts (returned w (setActiveCamera t w)) = timeouts w \<and>
   camera_ready_events (returned w (setActiveCamera t w)) = camera_ready_events w \<and>
   listeners (returned w (setActiveCamera t w)) = listeners w \<and>
   (camera w \<noteq> None \<longrightarrow> camera (returned w (setActiveCamera t w)) \<noteq> None) \<and>
   next_el (returned w (setActiveCamera t w)) = next_el w \<and>
   (\<forall>e. default_camera_attr (elements (returned w (setActiveCamera t w)) e) =
        default_camera_attr (elements w e))"
proof (cases "setActiveCamera t w")
  case (Inl err)
  then show ?thesis by (simp add: returned_def)
next
  case (Inr w')
  show ?thesis
  proof (cases "object3D_camera (elements w t) = None \<or> activeCameraEl w = Some t")
    case True
    then have "setActiveCamera t w = Inr w" by (rule setActiveCamera_guard)
    then show ?thesis by (simp add: returned_def)
  next
    case False
    then obtain c where c: "object3D_camera (elements w t) = Some c"
      and a: "activeCameraEl w \<noteq> Some t" by auto
    note sw = setActiveCamera_switch [OF c a Inr]
    from sw(1) have "set (descendants (tree w')) \<subseteq> set (descendants (tree w))"
      using switch_tree_subset by metis
    moreover have "default_camera_attr (elements w' e) = default_camera_attr (elements w e)" for e
      using sw(8) sw(9) [of e] by (cases "e = t") auto
    ultimately show ?thesis
      using Inr sw(2,4,5,6,7) by (simp add: returned_def camera_ready_events_def)
  qed
qed

lemma step_frame:
  assumes "op \<noteq> RunTimeout"
  shows "set (descendants (tree (step op w))) \<subseteq> set (descendants (tree w)) \<and>
   (op \<noteq> CallSetupDefaultCamera \<longrightarrow> timeouts (step op w) = timeouts w) \<and>
   camera_ready_events (step op w) = camera_ready_events w \<and>
   listeners (step op w) = listeners w \<and>
   (camera w \<noteq> None \<longrightarrow> camera (step op w) \<noteq> None) \<and>
   next_el (step op w) = next_el w \<and>
   (\<forall>e. default_camera_attr (elements (step op w) e) = default_camera_attr (elements w e))"
proof (cases op)
  case RunTimeout
  with assms show ?thesis by simp
next
  case CallSetupDefaultCamera
  then show ?thesis by (simp add: setupDefaultCamera_def camera_ready_events_def)
next
  case (CallSetActiveCamera t)
  then show ?thesis using setActiveCamera_frame [of w t] by simp
next
  case CallDisableActiveCamera
  then show ?thesis using disableActiveCamera_frame [of w]
    by (simp add: camera_ready_events_def)
next
  case CallAddDefaultOffset
  then show ?thesis using offset_frame [of "addDefaultOffset w" w]
    by (simp add: camera_ready_events_def)
next
  case CallRemoveDefaultOffset
  then show ?thesis using offset_frame [of "removeDefaultOffset w" w]
    by (simp add: camera_ready_events_def)
next
  case EnterVR
  then show ?thesis using dispatchEvent_frame [of "''enter-vr''" w]
    by (simp add: camera_ready_events_def)
next
  case ExitVR
  then show ?thesis using dispatchEvent_frame [of "''exit-vr''" w]
    by (simp add: camera_ready_events_def)
qed


lemma checkForCamera_with_camera:
  assumes "camera w \<noteq> None"
  shows "tree (checkForCamera w) = tree w" "elements (checkForCamera w) = elements w"
    "camera (checkForCamera w) = camera w"
  using assms by (auto simp: checkForCamera_def emit_def)


lemma run_timeout_with_camera:
  assumes "camera w \<noteq> None"
  shows "tree (run_timeout w) = tree w" "elements (run_timeout w) = elements w"
    "camera (run_timeout w) = camera w"
  using assms checkForCamera_with_camera [of "w\<lparr>timeouts := tl (timeouts w)\<rparr>"]
  by (auto simp: run_timeout_def split: list.splits task.splits)

lemma run_Cons: "run (a # ops) w = run ops (step a w)"
  by (simp add: run_def)

lemma run_Nil: "run [] w = w"
  by (simp add: run_def)




lemma run_with_camera:
  "camera w \<noteq> None \<Longrightarrow>
     set (descendants (tree (run ops w))) \<subseteq> set (descendants (tree w)) \<and>
     (\<forall>e. default_camera_attr (elements (run ops w) e) = default_camera_attr (elements w e)) \<and>
     camera (run ops w) \<noteq> None"
proof (induction ops arbitrary: w)
  case Nil
  then show ?case by (simp add: run_Nil)
next
  case (Cons a ops)
  have s: "set (descendants (tree (step a w))) \<subseteq> set (descendants (tree w)) \<and>
     (\<forall>e. default_camera_attr (elements (step a w) e) = default_camera_attr (elements w e)) \<and>
     camera (step a w) \<noteq> None"
  proof (cases "a = RunTimeout")
    case True
    with Cons.prems run_timeout_with_camera [of w] show ?thesis by simp
  next
    case False
    with Cons.prems step_frame [of a w] show ?thesis by simp
  qed
  with Cons.IH [of "step a w"] show ?case
    by (auto simp: run_Cons)
qed

subsection \<open>The \<^verbatim>\<open>camera-ready\<close> event\<close>


text \<open>
  \<^verbatim>\<open>setupDefaultCamera\<close> is called by \<^verbatim>\<open>init\<close>. Were it called once more, a second
  callback would run and emit a second event.
\<close>

lemma second_setup_second_event:
  "camera_ready_events (run [RunTimeout, CallSetupDefaultCamera, RunTimeout] (init empty_scene)) =
     [CameraReady (Some 0), CameraReady (Some 1)]"
  by (simp add: life_defs system_defs fixture_defs query_defs)



subsection \<open>Entering and leaving VR\<close>

text \<open>
  C3, as stated, fails: on a scene that was empty at initialisation the default camera
  is created at \<open>(0, 1.8, 4)\<close>; entering VR moves it to \<open>(0, 0, 0)\<close>, not to
  \<open>(0, 3.6, 8)\<close>, and leaving VR from the start position moves it to \<open>(0, 3.6, 8)\<close>.
\<close>

theorem vr_offset_counterexample:
  "position (elements (run [RunTimeout] (init empty_scene)) 0) =
     Some \<lparr>x = double_0, y = double_1_8, z = double_4\<rparr> \<and>
   position (elements (run [RunTimeout, EnterVR] (init empty_scene)) 0) =
     Some \<lparr>x = double_0, y = double_0, z = double_0\<rparr> \<and>
   position (elements (run [RunTimeout, EnterVR] (init empty_scene)) 0) \<noteq>
     Some \<lparr>x = dadd double_0 double_0, y = dadd double_1_8 double_1_8,
           z = dadd double_4 double_4\<rparr> \<and>
   position (elements (run [RunTimeout, ExitVR] (init empty_scene)) 0) =
     Some \<lparr>x = double_0, y = double_3_6, z = double_8\<rparr>"
  by (simp add: life_defs system_defs fixture_defs query_defs double_defs)

text \<open>
  C3, amended. With the listeners that \<^verbatim>\<open>checkForCamera\<close> registers when it builds the
  default camera, \<^verbatim>\<open>enter-vr\<close> translates the position of the first element carrying
  the default-camera attribute by \<open>-(0, 1.8, 4)\<close> and \<^verbatim>\<open>exit-vr\<close> translates it by
  \<open>+(0, 1.8, 4)\<close>, componentwise, in the arithmetic of doubles; without such an element
  (or when it has no position) nothing changes, and no other element is ever written.
\<close>

theorem vr_offset_direction:
  assumes "camera v = None" and "listeners v = []"
    and "listeners w = listeners (checkForCamera v)"
  shows "dispatchEvent ''enter-vr'' w =
       (case querySelector sel_default_camera w (tree w) of
          None \<Rightarrow> w
        | Some defaultCamera \<Rightarrow>
            (case position (elements w defaultCamera) of
               None \<Rightarrow> w
             | Some p \<Rightarrow> setAttribute_position defaultCamera
                          \<lparr>x = dsub (x p) double_0, y = dsub (y p) double_1_8,
                           z = dsub (z p) double_4\<rparr> w)) \<and>
     dispatchEvent ''exit-vr'' w =
       (case querySelector sel_default_camera w (tree w) of
          None \<Rightarrow> w
        | Some defaultCamera \<Rightarrow>
            (case position (elements w defaultCamera) of
               None \<Rightarrow> w
             | Some p \<Rightarrow> setAttribute_position defaultCamera
                          \<lparr>x = dadd (x p) double_0, y = dadd (y p) double_1_8,
                           z = dadd (z p) double_4\<rparr> w)) \<and>
     (\<forall>e. querySelector sel_default_camera w (tree w) \<noteq> Some e \<longrightarrow>
        elements (dispatchEvent ''enter-vr'' w) e = elements w e \<and>
        elements (dispatchEvent ''exit-vr'' w) e = elements w e)"
proof -
  have l: "listeners w = [(''enter-vr'', RemoveDefaultOffset), (''exit-vr'', AddDefaultOffset)]"
    using assms
    by (simp add: checkForCamera_def createElement_def appendChild_def addEventListener_def
        setAttribute_default_camera_def setAttribute_wasd_controls_def
        setAttribute_look_controls_def setAttribute_camera_active_def
        setAttribute_position_def emit_def)
  have en: "dispatchEvent ''enter-vr'' w = returned w (removeDefaultOffset w)"
    and ex: "dispatchEvent ''exit-vr'' w = returned w (addDefaultOffset w)"
    by (simp_all add: dispatchEvent_def l)
  show ?thesis
    unfolding en ex
    by (auto simp: returned_def removeDefaultOffset_def addDefaultOffset_def
        DEFAULT_CAMERA_POSITION_def setAttribute_position_def split: option.splits)
qed

theorem vr_offset_direction_witness:
  "camera empty_scene = None \<and> listeners empty_scene = [] \<and>
   listeners (two_cameras True) = listeners (checkForCamera empty_scene) \<and>
   dispatchEvent ''enter-vr'' (two_cameras True) =
     setAttribute_position 0 \<lparr>x = double_0, y = double_0, z = double_0\<rparr> (two_cameras True) \<and>
   dispatchEvent ''exit-vr'' (two_cameras True) =
     setAttribute_position 0 \<lparr>x = double_0, y = double_3_6, z = double_8\<rparr> (two_cameras True)"
proof -
  have h: "camera empty_scene = None" "listeners empty_scene = []"
    "listeners (two_cameras True) = listeners (checkForCamera empty_scene)"
    by (simp_all add: life_defs system_defs fixture_defs)
  have q: "querySelector sel_default_camera (two_cameras True) (tree (two_cameras True)) = Some 0"
    "position (elements (two_cameras True) 0) =
       Some \<lparr>x = double_0, y = double_1_8, z = double_4\<rparr>"
    by (simp_all add: fixture_defs query_defs DEFAULT_CAMERA_POSITION_def)
  from vr_offset_direction [OF h] h q show ?thesis
    by (simp add: double_sums)
qed

subsection \<open>Removal of the default camera\<close>

text \<open>
  C2, as stated, fails. First scene: \<^verbatim>\<open>sceneEl.camera\<close> is unset, the target (element 1)
  is not the default camera, the call activates it, and the default camera (element 0) is
  still in the scene. Second scene: \<^verbatim>\<open>sceneEl.camera\<close> is set, the default camera is
  removed, and both listeners are still registered; a target without a realized camera
  (element 7) leaves the same scene untouched. Third scene: the default camera is not a
  child of the scene, and the call throws.
\<close>

theorem default_camera_removal_counterexample:
  "camera before_first_activation = None \<and>
   defaultCameraEl_of before_first_activation = None \<and>
   \<not> isl (setActiveCamera 1 before_first_activation) \<and>
   activeCameraEl (projr (setActiveCamera 1 before_first_activation)) = Some 1 \<and>
   querySelector sel_default_camera (projr (setActiveCamera 1 before_first_activation))
     (tree (projr (setActiveCamera 1 before_first_activation))) = Some 0 \<and>
   \<not> isl (setActiveCamera 1 (two_cameras True)) \<and>
   tree (projr (setActiveCamera 1 (two_cameras True))) = [Node 1 []] \<and>
   listeners (projr (setActiveCamera 1 (two_cameras True))) =
     [(''enter-vr'', RemoveDefaultOffset), (''exit-vr'', AddDefaultOffset)] \<and>
   setActiveCamera 7 (two_cameras True) = Inr (two_cameras True) \<and>
   setActiveCamera 1 nested_default_camera = Inl NotFoundError"
  by (simp add: before_first_activation_def nested_default_camera_def system_defs
      fixture_defs query_defs)

text \<open>
  C2, amended. Let the scene hold each element once, let the first element with the
  default-camera attribute be a child of the scene, and let \<^verbatim>\<open>sceneEl.camera\<close> be set.
  A call of \<^verbatim>\<open>setActiveCamera\<close> that gets past its guard, with a target that is neither
  that element nor its first \<^verbatim>\<open>[camera]\<close> descendant, returns and has removed that
  element from the scene. Whatever operations follow, the element never is in the scene
  again, and no element with the default-camera attribute appears in the scene that was
  not there before the call.
\<close>

theorem default_camera_removal:
  assumes "distinct (descendants (tree w))"
    and "object3D_camera (elements w newCameraEl) = Some newCamera"
    and "activeCameraEl w \<noteq> Some newCameraEl"
    and "camera w \<noteq> None"
    and "querySelector sel_default_camera w (tree w) = Some defaultCamera"
    and "newCameraEl \<noteq> defaultCamera"
    and "defaultCameraEl_of w \<noteq> Some newCameraEl"
    and "remove_child defaultCamera (tree w) = Some ns"
  shows "\<exists>w'. setActiveCamera newCameraEl w = Inr w' \<and> tree w' = ns \<and>
     (\<forall>ops. defaultCamera \<notin> set (descendants (tree (run ops w'))) \<and>
        set (querySelectorAll sel_default_camera (run ops w') (tree (run ops w'))) \<subseteq>
          set (querySelectorAll sel_default_camera w (tree w)) - {defaultCamera})"
proof -
  have r: "removeDefaultCamera w = Inr (w\<lparr>tree := ns\<rparr>)"
    using assms(4,5,8)
    by (auto simp: removeDefaultCamera_def removeChild_def removeEventListener_def)
  then have "(if Some newCameraEl \<noteq> defaultCameraEl_of w then removeDefaultCamera w else Inr w) =
      Inr (w\<lparr>tree := ns\<rparr>)"
    using assms(7) by auto
  with assms(2,3) have "\<exists>w'. setActiveCamera newCameraEl w = Inr w'"
    by (simp add: setActiveCamera_def Let_def)
  then obtain w' where w': "setActiveCamera newCameraEl w = Inr w'" ..
  note sw = setActiveCamera_switch [OF assms(2,3) w']
  from sw(1) r assms(7) have t: "tree w' = ns" by auto
  have gone: "defaultCamera \<notin> set (descendants ns)"
    using remove_child_gone [OF assms(8,1)] .
  have sub: "set (descendants ns) \<subseteq> set (descendants (tree w))"
    using remove_child_descendants [OF assms(8)] .
  have attr: "default_camera_attr (elements w' e) = default_camera_attr (elements w e)" for e
    using sw(8) sw(9) [of e] by (cases "e = newCameraEl") auto
  have c: "camera w' \<noteq> None"
    using sw(2) by simp
  have later: "defaultCamera \<notin> set (descendants (tree (run ops w'))) \<and>
        set (querySelectorAll sel_default_camera (run ops w') (tree (run ops w'))) \<subseteq>
          set (querySelectorAll sel_default_camera w (tree w)) - {defaultCamera}" for ops
  proof -
    from run_with_camera [OF c, of ops]
    have s: "set (descendants (tree (run ops w'))) \<subseteq> set (descendants ns)"
      and a: "\<And>e. default_camera_attr (elements (run ops w') e) =
                default_camera_attr (elements w' e)"
      by (simp_all add: t)
    from s gone have "defaultCamera \<notin> set (descendants (tree (run ops w')))" by auto
    moreover have "e \<in> set (querySelectorAll sel_default_camera w (tree w)) - {defaultCamera}"
      if "e \<in> set (querySelectorAll sel_default_camera (run ops w') (tree (run ops w')))" for e
      using that s sub gone a [of e] attr [of e]
      by (auto simp: querySelectorAll_def sel_default_camera_def)
    ultimately show ?thesis by blast
  qed
  from w' t later show ?thesis by blast
qed

theorem default_camera_removal_witness:
  "\<exists>w'. setActiveCamera 1 (two_cameras True) = Inr w' \<and> tree w' = [Node 1 []] \<and>
      0 \<notin> set (descendants (tree (run [RunTimeout, CallDisableActiveCamera, ExitVR] w'))) \<and>
      querySelectorAll sel_default_camera (run [RunTimeout] w') (tree (run [RunTimeout] w')) = []"
proof -
  have h: "distinct (descendants (tree (two_cameras True)))"
    "object3D_camera (elements (two_cameras True) 1) = Some (Object3D 11 (Some 1))"
    "activeCameraEl (two_cameras True) \<noteq> Some 1"
    "camera (two_cameras True) \<noteq> None"
    "querySelector sel_default_camera (two_cameras True) (tree (two_cameras True)) = Some 0"
    "(1::nat) \<noteq> 0"
    "defaultCameraEl_of (two_cameras True) \<noteq> Some 1"
    "remove_child 0 (tree (two_cameras True)) = Some [Node 1 []]"
    by (simp_all add: fixture_defs query_defs defaultCameraEl_of_def)
  have q: "querySelectorAll sel_default_camera (two_cameras True) (tree (two_cameras True)) = [0]"
    by (simp add: fixture_defs query_defs)
  from default_camera_removal [OF h] obtain w' where
    w': "setActiveCamera 1 (two_cameras True) = Inr w'" "tree w' = [Node 1 []]"
    and l: "\<And>ops. 0 \<notin> set (descendants (tree (run ops w'))) \<and>
        set (querySelectorAll sel_default_camera (run ops w') (tree (run ops w'))) \<subseteq>
          set (querySelectorAll sel_default_camera (two_cameras True) (tree (two_cameras True))) - {0}"
    by blast
  from l [of "[RunTimeout, CallDisableActiveCamera, ExitVR]"] l [of "[RunTimeout]"] w' q
  show ?thesis by simp
qed

end
